theory Spec2Isabelle
  imports Complex_Main
begin

section \<open>Data model\<close>

text \<open>
  The records follow the interfaces of \<^verbatim>\<open>types/call.ts\<close> and
  \<^verbatim>\<open>types/transcript.ts\<close>. An optional field \<^verbatim>\<open>f?: T\<close> is an option.
  Field names carry a prefix where two interfaces share a name or where the name is taken
  (\<^verbatim>\<open>id\<close>, \<^verbatim>\<open>text\<close>, \<^verbatim>\<open>total\<close>).

  \<^verbatim>\<open>CallStatus\<close> is a union of five string literals. TypeScript erases it, and
  \<^verbatim>\<open>updateCallStatus\<close> stores a plain \<^verbatim>\<open>string\<close> through the cast
  \<^verbatim>\<open>as any\<close>, so the field holds a string.
\<close>

type_synonym CallStatus = string

record Call =
  call_id :: string
  phone_number :: string
  status :: CallStatus
  caller_id :: "string option"
  direction :: string
  twilio_call_sid :: "string option"
  started_at :: "string option"
  ended_at :: "string option"
  duration :: "int option"
  recording_url :: "string option"
  ai_persona :: string
  created_at :: string
  updated_at :: string

record Transcript =
  tr_id :: string
  tr_call_id :: string
  tr_speaker :: string
  tr_text :: string
  tr_timestamp :: string
  tr_confidence :: "real option"
  tr_created_at :: string

record CallInitiateRequest =
  req_phone_number :: string
  req_caller_id :: "string option"
  req_ai_persona :: "string option"

record CallInitiateResponse =
  resp_call_id :: string
  resp_status :: string
  resp_phone_number :: string
  resp_created_at :: string
  websocket_url :: string

record CallListResponse =
  items :: "Call list"
  total_items :: int
  page :: int
  page_size :: int
  pages :: int

record TranscriptListResponse =
  tl_call_id :: string
  tl_transcripts :: "Transcript list"

section \<open>The call state slice\<close>

record CallState =
  activeCall :: "Call option"
  callHistory :: "Call list"
  transcripts :: "Transcript list"
  loading :: bool
  error :: "string option"
  totalCalls :: int
  currentPage :: int

definition initialState :: CallState where
  "initialState =
     \<lparr>activeCall = None, callHistory = [], transcripts = [], loading = False,
      error = None, totalCalls = 0, currentPage = 1\<rparr>"

text \<open>
  The \<^verbatim>\<open>error\<close> member of a rejected thunk action, as the toolkit serialises a
  thrown value; each member may be missing.
\<close>

record SerializedError =
  err_name :: "string option"
  err_message :: "string option"
  err_stack :: "string option"
  err_code :: "string option"

text \<open>
  \<^verbatim>\<open>action.error.message || fallback\<close>: the fallback is taken when the message is
  undefined or the empty string (both falsy).
\<close>

definition message_or :: "SerializedError \<Rightarrow> string \<Rightarrow> string" where
  "message_or e fallback =
     (case err_message e of
        None \<Rightarrow> fallback
      | Some m \<Rightarrow> (if m = [] then fallback else m))"

subsection \<open>Reducers\<close>

definition setActiveCall :: "CallState \<Rightarrow> Call \<Rightarrow> CallState" where
  "setActiveCall state payload = state\<lparr>activeCall := Some payload\<rparr>"

text \<open>
  \<^verbatim>\<open>state.activeCall?.id === action.payload.callId\<close>: with no active call the left side
  is undefined, which is never strictly equal to a string.
\<close>

definition updateCallStatus :: "CallState \<Rightarrow> string \<Rightarrow> string \<Rightarrow> CallState" where
  "updateCallStatus state callId newStatus =
     (case activeCall state of
        None \<Rightarrow> state
      | Some c \<Rightarrow>
          (if call_id c = callId
           then state\<lparr>activeCall := Some (c\<lparr>status := newStatus\<rparr>)\<rparr>
           else state))"

definition addTranscript :: "CallState \<Rightarrow> Transcript \<Rightarrow> CallState" where
  "addTranscript state payload = state\<lparr>transcripts := transcripts state @ [payload]\<rparr>"

definition clearActiveCall :: "CallState \<Rightarrow> CallState" where
  "clearActiveCall state = state\<lparr>activeCall := None, transcripts := []\<rparr>"

definition setError :: "CallState \<Rightarrow> string \<Rightarrow> CallState" where
  "setError state payload = state\<lparr>error := Some payload\<rparr>"

definition clearError :: "CallState \<Rightarrow> CallState" where
  "clearError state = state\<lparr>error := None\<rparr>"

subsection \<open>Extra reducers of the four thunks\<close>

definition initiateCall_pending :: "CallState \<Rightarrow> CallState" where
  "initiateCall_pending state = state\<lparr>loading := True, error := None\<rparr>"

text \<open>The payload is \<^verbatim>\<open>{ call, websocketUrl }\<close>; the reducer reads \<^verbatim>\<open>call\<close> only.\<close>

definition initiateCall_fulfilled :: "CallState \<Rightarrow> Call \<times> string \<Rightarrow> CallState" where
  "initiateCall_fulfilled state payload =
     state\<lparr>loading := False, activeCall := Some (fst payload), transcripts := []\<rparr>"

definition initiateCall_rejected :: "CallState \<Rightarrow> SerializedError \<Rightarrow> CallState" where
  "initiateCall_rejected state e =
     state\<lparr>loading := False, error := Some (message_or e ''Failed to initiate call'')\<rparr>"

definition fetchCallHistory_pending :: "CallState \<Rightarrow> CallState" where
  "fetchCallHistory_pending state = state\<lparr>loading := True\<rparr>"

definition fetchCallHistory_fulfilled :: "CallState \<Rightarrow> CallListResponse \<Rightarrow> CallState" where
  "fetchCallHistory_fulfilled state payload =
     state\<lparr>loading := False, callHistory := items payload,
           totalCalls := total_items payload, currentPage := page payload\<rparr>"

definition fetchCallHistory_rejected :: "CallState \<Rightarrow> SerializedError \<Rightarrow> CallState" where
  "fetchCallHistory_rejected state e =
     state\<lparr>loading := False, error := Some (message_or e ''Failed to fetch call history'')\<rparr>"

definition fetchCallDetails_pending :: "CallState \<Rightarrow> CallState" where
  "fetchCallDetails_pending state = state\<lparr>loading := True\<rparr>"

text \<open>The payload is \<^verbatim>\<open>{ call, transcripts }\<close>.\<close>

definition fetchCallDetails_fulfilled ::
  "CallState \<Rightarrow> Call \<times> Transcript list \<Rightarrow> CallState" where
  "fetchCallDetails_fulfilled state payload =
     state\<lparr>loading := False, activeCall := Some (fst payload), transcripts := snd payload\<rparr>"

definition fetchCallDetails_rejected :: "CallState \<Rightarrow> SerializedError \<Rightarrow> CallState" where
  "fetchCallDetails_rejected state e =
     state\<lparr>loading := False, error := Some (message_or e ''Failed to fetch call details'')\<rparr>"

text \<open>
  The only case registered for \<^verbatim>\<open>endCall\<close>. The payload (the call id the thunk
  returns) is not read: the callback takes \<^verbatim>\<open>(state)\<close> alone.
\<close>

definition endCall_fulfilled :: "CallState \<Rightarrow> string \<Rightarrow> CallState" where
  "endCall_fulfilled state payload =
     (case activeCall state of
        None \<Rightarrow> state
      | Some c \<Rightarrow> state\<lparr>activeCall := Some (c\<lparr>status := ''completed''\<rparr>)\<rparr>)"

subsection \<open>Actions and the slice reducer\<close>

text \<open>
  One constructor per action creator of the slice and per lifecycle action of the four
  thunks. \<^verbatim>\<open>endCall.pending\<close> and \<^verbatim>\<open>endCall.rejected\<close> are dispatched by the thunk
  but no case is registered for them, so the reducer returns the state as it is.
\<close>

datatype action =
    SetActiveCall Call
  | UpdateCallStatus string string
  | AddTranscript Transcript
  | ClearActiveCall
  | SetError string
  | ClearError
  | InitiateCallPending
  | InitiateCallFulfilled "Call \<times> string"
  | InitiateCallRejected SerializedError
  | FetchCallHistoryPending
  | FetchCallHistoryFulfilled CallListResponse
  | FetchCallHistoryRejected SerializedError
  | FetchCallDetailsPending
  | FetchCallDetailsFulfilled "Call \<times> Transcript list"
  | FetchCallDetailsRejected SerializedError
  | EndCallPending
  | EndCallFulfilled string
  | EndCallRejected SerializedError

fun callReducer :: "CallState \<Rightarrow> action \<Rightarrow> CallState" where
  "callReducer state (SetActiveCall c) = setActiveCall state c"
| "callReducer state (UpdateCallStatus callId st) = updateCallStatus state callId st"
| "callReducer state (AddTranscript t) = addTranscript state t"
| "callReducer state ClearActiveCall = clearActiveCall state"
| "callReducer state (SetError m) = setError state m"
| "callReducer state ClearError = clearError state"
| "callReducer state InitiateCallPending = initiateCall_pending state"
| "callReducer state (InitiateCallFulfilled p) = initiateCall_fulfilled state p"
| "callReducer state (InitiateCallRejected e) = initiateCall_rejected state e"
| "callReducer state FetchCallHistoryPending = fetchCallHistory_pending state"
| "callReducer state (FetchCallHistoryFulfilled p) = fetchCallHistory_fulfilled state p"
| "callReducer state (FetchCallHistoryRejected e) = fetchCallHistory_rejected state e"
| "callReducer state FetchCallDetailsPending = fetchCallDetails_pending state"
| "callReducer state (FetchCallDetailsFulfilled p) = fetchCallDetails_fulfilled state p"
| "callReducer state (FetchCallDetailsRejected e) = fetchCallDetails_rejected state e"
| "callReducer state EndCallPending = state"
| "callReducer state (EndCallFulfilled callId) = endCall_fulfilled state callId"
| "callReducer state (EndCallRejected e) = state"

section \<open>Thunks and the hook's actions\<close>

text \<open>
  The REST wrapper \<^verbatim>\<open>callService\<close> is the boundary to the backend: each method either
  returns the response body or throws. A method is a function into a sum, \<open>Inl\<close> the
  serialised error of the throw. (\<^verbatim>\<open>getCalls\<close> and \<^verbatim>\<open>getRecordingUrl\<close> are not
  used below and are left out.)
\<close>

record callService =
  svc_initiateCall :: "CallInitiateRequest \<Rightarrow> SerializedError + CallInitiateResponse"
  svc_getCall :: "string \<Rightarrow> SerializedError + Call"
  svc_endCall :: "string \<Rightarrow> SerializedError + unit"
  svc_getTranscripts :: "string \<Rightarrow> SerializedError + TranscriptListResponse"

text \<open>
  A thunk made by \<^verbatim>\<open>createAsyncThunk\<close> dispatches its pending action, runs the payload
  creator, and dispatches the fulfilled action with the returned value or the rejected
  action with the serialised error; the promise it returns resolves to that last action and
  never rejects. Each thunk is the list of actions it dispatches, in order. The first
  \<^verbatim>\<open>await\<close> that throws ends the payload creator.
\<close>

definition initiateCall :: "callService \<Rightarrow> CallInitiateRequest \<Rightarrow> action list" where
  "initiateCall svc data =
     [InitiateCallPending,
      (case svc_initiateCall svc data of
         Inl e \<Rightarrow> InitiateCallRejected e
       | Inr response \<Rightarrow>
           (case svc_getCall svc (resp_call_id response) of
              Inl e \<Rightarrow> InitiateCallRejected e
            | Inr call \<Rightarrow> InitiateCallFulfilled (call, websocket_url response)))]"

definition fetchCallDetails :: "callService \<Rightarrow> string \<Rightarrow> action list" where
  "fetchCallDetails svc callId =
     [FetchCallDetailsPending,
      (case svc_getCall svc callId of
         Inl e \<Rightarrow> FetchCallDetailsRejected e
       | Inr call \<Rightarrow>
           (case svc_getTranscripts svc callId of
              Inl e \<Rightarrow> FetchCallDetailsRejected e
            | Inr r \<Rightarrow> FetchCallDetailsFulfilled (call, tl_transcripts r)))]"

definition endCall :: "callService \<Rightarrow> string \<Rightarrow> action list" where
  "endCall svc callId =
     [EndCallPending,
      (case svc_endCall svc callId of
         Inl e \<Rightarrow> EndCallRejected e
       | Inr u \<Rightarrow> EndCallFulfilled callId)]"

text \<open>
  \<^verbatim>\<open>useCall\<close>. \<^verbatim>\<open>startCall\<close> returns \<^verbatim>\<open>result.payload\<close> of the action the dispatch
  resolves to: the fulfilled payload, or undefined (\<open>None\<close>) for a rejected action.
  \<^verbatim>\<open>stopCall\<close> and \<^verbatim>\<open>loadCallDetails\<close> return nothing. Each function takes the store
  state at the dispatch and returns the state after the thunk's last action.
\<close>

fun initiate_payload :: "action \<Rightarrow> (Call \<times> string) option" where
  "initiate_payload (InitiateCallFulfilled p) = Some p"
| "initiate_payload a = None"

definition startCall ::
  "callService \<Rightarrow> CallState \<Rightarrow> CallInitiateRequest \<Rightarrow> CallState \<times> (Call \<times> string) option" where
  "startCall svc state data =
     (let result = initiateCall svc data
      in (foldl callReducer state result, initiate_payload (last result)))"

definition stopCall :: "callService \<Rightarrow> CallState \<Rightarrow> string \<Rightarrow> CallState" where
  "stopCall svc state callId = foldl callReducer state (endCall svc callId)"

definition loadCallDetails :: "callService \<Rightarrow> CallState \<Rightarrow> string \<Rightarrow> CallState" where
  "loadCallDetails svc state callId = foldl callReducer state (fetchCallDetails svc callId)"

section \<open>The transition graph of the specification\<close>






section \<open>The WebSocket hook\<close>

text \<open>
  \<^verbatim>\<open>useWebSocket\<close> keeps two refs, \<^verbatim>\<open>wsRef\<close> and \<^verbatim>\<open>reconnectTimeoutRef\<close>. The
  browser side is modelled next to them: every socket \<^verbatim>\<open>new WebSocket\<close> has made, with
  its \<^verbatim>\<open>readyState\<close> (a socket is its index in \<open>sockets\<close>, so \<open>length sockets\<close> counts
  the connections opened), and every timer \<^verbatim>\<open>setTimeout\<close> has made, \<open>True\<close> while it
  is pending (a timer handle is its index; handles are truthy). \<open>sent\<close> logs the
  subscribe messages as (socket, call id).

  All callbacks run on one event loop, so a run is a sequence of events, each handled to
  completion. The 3000 ms of the timer are abstracted: a pending timer may fire at any
  later point of the run.
\<close>

datatype readyState = CONNECTING | OPEN | CLOSING | CLOSED

record channel =
  wsRef :: "nat option"
  reconnectTimeoutRef :: "nat option"
  sockets :: "readyState list"
  timers :: "bool list"
  sent :: "(nat \<times> string) list"

definition channel0 :: channel where
  "channel0 = \<lparr>wsRef = None, reconnectTimeoutRef = None, sockets = [], timers = [], sent = []\<rparr>"

text \<open>
  \<^verbatim>\<open>connect\<close>: nothing when \<^verbatim>\<open>callId\<close> is falsy (null or the empty string);
  otherwise a new socket, stored in \<^verbatim>\<open>wsRef\<close>.
\<close>

definition connect :: "string option \<Rightarrow> channel \<Rightarrow> channel" where
  "connect callId h =
     (case callId of
        None \<Rightarrow> h
      | Some cid \<Rightarrow>
          (if cid = [] then h
           else h\<lparr>sockets := sockets h @ [CONNECTING], wsRef := Some (length (sockets h))\<rparr>))"

text \<open>
  The browser's \<^verbatim>\<open>WebSocket.close()\<close>: a socket that is connecting or open starts
  closing, and its close event is delivered later; on a closing or closed socket the call
  does nothing. \<^verbatim>\<open>clearTimeout\<close> makes a pending timer not pending.
\<close>

definition ws_close :: "nat \<Rightarrow> channel \<Rightarrow> channel" where
  "ws_close w h =
     (if w < length (sockets h) \<and> (sockets h ! w = CONNECTING \<or> sockets h ! w = OPEN)
      then h\<lparr>sockets := (sockets h)[w := CLOSING]\<rparr>
      else h)"

definition clearTimeout :: "nat \<Rightarrow> channel \<Rightarrow> channel" where
  "clearTimeout t h = h\<lparr>timers := (timers h)[t := False]\<rparr>"

text \<open>
  \<^verbatim>\<open>disconnect\<close>: clears the timer whose handle is in the ref (the ref keeps the
  handle), then closes the socket in \<^verbatim>\<open>wsRef\<close> and sets the ref to null.
\<close>

definition disconnect :: "channel \<Rightarrow> channel" where
  "disconnect h =
     (let h1 = (case reconnectTimeoutRef h of None \<Rightarrow> h | Some t \<Rightarrow> clearTimeout t h)
      in (case wsRef h1 of
            None \<Rightarrow> h1
          | Some w \<Rightarrow> (ws_close w h1)\<lparr>wsRef := None\<rparr>))"

text \<open>
  The handlers \<^verbatim>\<open>connect\<close> installs on a socket. \<^verbatim>\<open>onopen\<close> sends the subscribe
  message on that socket. \<^verbatim>\<open>onclose\<close> starts a timer that will call \<^verbatim>\<open>connect\<close> and
  stores its handle; it reads neither ref and does not tell a close the caller asked for
  from one the network caused. (\<^verbatim>\<open>CallPage\<close> passes no \<^verbatim>\<open>onOpen\<close>, \<^verbatim>\<open>onClose\<close>
  or \<^verbatim>\<open>onError\<close> option, so the optional calls do nothing.)
\<close>

definition onopen :: "string option \<Rightarrow> nat \<Rightarrow> channel \<Rightarrow> channel" where
  "onopen callId w h =
     (case callId of
        None \<Rightarrow> h
      | Some cid \<Rightarrow> h\<lparr>sent := sent h @ [(w, cid)]\<rparr>)"

definition onclose :: "channel \<Rightarrow> channel" where
  "onclose h = h\<lparr>timers := timers h @ [True], reconnectTimeoutRef := Some (length (timers h))\<rparr>"

text \<open>
  The events of a run. \<open>Mount\<close> is the effect body (\<^verbatim>\<open>if (callId) connect()\<close>);
  \<open>Close\<close> is a call of \<^verbatim>\<open>disconnect\<close>, by the effect's cleanup or through the
  function the hook returns. The other three are the browser's: a connecting socket opens;
  a socket that is not yet closed gets its close event (the connection failed or was lost,
  or the closing handshake ended); a pending timer fires. An event that cannot happen in
  the current state leaves it unchanged.
\<close>

datatype chan_event = Mount | Close | SocketOpened nat | SocketClosed nat | TimerFired nat

fun chan_step :: "string option \<Rightarrow> channel \<Rightarrow> chan_event \<Rightarrow> channel" where
  "chan_step callId h Mount = connect callId h"
| "chan_step callId h Close = disconnect h"
| "chan_step callId h (SocketOpened w) =
     (if w < length (sockets h) \<and> sockets h ! w = CONNECTING
      then onopen callId w (h\<lparr>sockets := (sockets h)[w := OPEN]\<rparr>)
      else h)"
| "chan_step callId h (SocketClosed w) =
     (if w < length (sockets h) \<and> sockets h ! w \<noteq> CLOSED
      then onclose (h\<lparr>sockets := (sockets h)[w := CLOSED]\<rparr>)
      else h)"
| "chan_step callId h (TimerFired t) =
     (if t < length (timers h) \<and> timers h ! t
      then connect callId (h\<lparr>timers := (timers h)[t := False]\<rparr>)
      else h)"

definition chan_run :: "string option \<Rightarrow> chan_event list \<Rightarrow> channel" where
  "chan_run callId evs = foldl (chan_step callId) channel0 evs"

definition opens :: "channel \<Rightarrow> nat" where
  "opens h = length (sockets h)"

section \<open>Inbound messages\<close>

text \<open>
  A parsed JSON value. \<^verbatim>\<open>JSON.parse\<close> is the platform's: it is a parameter
  \<open>parse\<close> of the handler, \<open>None\<close> where it throws a SyntaxError. An object is its list
  of members (keys distinct, as in a JavaScript object).
\<close>

datatype json =
    JNull
  | JBool bool
  | JNumber real
  | JString string
  | JArray "json list"
  | JObject "(string \<times> json) list"

datatype js_error = SyntaxError | TypeError

text \<open>
  Reading a member \<^verbatim>\<open>message.k\<close>: on null it throws a TypeError; on an object it is
  the member or undefined (\<open>None\<close>); on a boolean, number, string or array it is
  undefined for each of the names read here (\<^verbatim>\<open>type\<close>, \<^verbatim>\<open>speaker\<close>, \<^verbatim>\<open>text\<close>,
  \<^verbatim>\<open>timestamp\<close>, \<^verbatim>\<open>status\<close>), none of which is a built-in property.
\<close>

fun js_get :: "json \<Rightarrow> string \<Rightarrow> js_error + json option" where
  "js_get JNull k = Inl TypeError"
| "js_get (JObject members) k = Inr (map_of members k)"
| "js_get v k = Inr None"

text \<open>
  What the \<^verbatim>\<open>onMessage\<close> callback of \<^verbatim>\<open>CallPage\<close> hands to the store hook: the
  arguments of \<^verbatim>\<open>handleNewTranscript\<close> or of \<^verbatim>\<open>handleStatusUpdate\<close>. The members
  copied from the message are unchecked, so they are JSON values or undefined.
\<close>

record WireTranscript =
  w_id :: string
  w_call_id :: string
  w_speaker :: "json option"
  w_text :: "json option"
  w_timestamp :: "json option"
  w_created_at :: "json option"

datatype DomainEvent =
    HandleNewTranscript WireTranscript
  | HandleStatusUpdate string "json option"

text \<open>
  The callback, for the route's \<^verbatim>\<open>callId\<close> and the value \<open>uuid\<close> that
  \<^verbatim>\<open>crypto.randomUUID()\<close> returns. \<^verbatim>\<open>message.type === 'transcript'\<close> holds only for
  the string itself. The first member read decides whether the read throws; once
  \<^verbatim>\<open>type\<close> has been read from a value, the later reads are from the same value and
  cannot throw.
\<close>

definition js_member :: "json \<Rightarrow> string \<Rightarrow> json option" where
  "js_member v k = (case js_get v k of Inl e \<Rightarrow> None | Inr r \<Rightarrow> r)"

definition onMessage :: "string \<Rightarrow> string \<Rightarrow> json \<Rightarrow> js_error + DomainEvent option" where
  "onMessage callId uuid message =
     (case js_get message ''type'' of
        Inl e \<Rightarrow> Inl e
      | Inr ty \<Rightarrow>
          (if ty = Some (JString ''transcript'')
           then Inr (Some (HandleNewTranscript
                  \<lparr>w_id = uuid, w_call_id = callId,
                   w_speaker = js_member message ''speaker'',
                   w_text = js_member message ''text'',
                   w_timestamp = js_member message ''timestamp'',
                   w_created_at = js_member message ''timestamp''\<rparr>))
           else if ty = Some (JString ''status_update'')
           then Inr (Some (HandleStatusUpdate callId (js_member message ''status'')))
           else Inr None))"

text \<open>
  \<^verbatim>\<open>ws.onmessage\<close>: parse and the optional callback run inside one \<^verbatim>\<open>try\<close>; the
  \<^verbatim>\<open>catch\<close> logs and returns. The result is a sum so that "throws" is a value the
  handler could have: \<open>Inl\<close> would be an error leaving the handler.
\<close>

definition ws_onmessage ::
  "(string \<Rightarrow> json option) \<Rightarrow> (json \<Rightarrow> js_error + DomainEvent option) option \<Rightarrow> string
     \<Rightarrow> js_error + DomainEvent option" where
  "ws_onmessage parse callback data =
     (let attempt =
        (case parse data of
           None \<Rightarrow> Inl SyntaxError
         | Some message \<Rightarrow>
             (case callback of
                None \<Rightarrow> Inr None
              | Some f \<Rightarrow> f message))
      in (case attempt of
            Inl e \<Rightarrow> Inr None
          | Inr r \<Rightarrow> Inr r))"

text \<open>
  The specification's Event Normalizer is this pair: the hook's \<^verbatim>\<open>onmessage\<close> with the
  page's callback installed.
\<close>

definition normalize_raw ::
  "(string \<Rightarrow> json option) \<Rightarrow> string \<Rightarrow> string \<Rightarrow> string \<Rightarrow> js_error + DomainEvent option" where
  "normalize_raw parse callId uuid data = ws_onmessage parse (Some (onMessage callId uuid)) data"

section \<open>Concrete values\<close>

text \<open>The inputs at which the theorems below are instantiated.\<close>

definition call_a :: Call where
  "call_a =
     \<lparr>call_id = ''a'', phone_number = ''+821012345678'', status = ''initiating'',
      caller_id = None, direction = ''outbound'', twilio_call_sid = None,
      started_at = None, ended_at = None, duration = None, recording_url = None,
      ai_persona = ''default'', created_at = ''T0'', updated_at = ''T0''\<rparr>"

definition call_b :: Call where
  "call_b = call_a\<lparr>call_id := ''b'', phone_number := ''+821098765432''\<rparr>"

definition state_a :: CallState where
  "state_a = initialState\<lparr>activeCall := Some call_a\<rparr>"

definition entry1 :: Transcript where
  "entry1 =
     \<lparr>tr_id = ''t1'', tr_call_id = ''a'', tr_speaker = ''user'', tr_text = ''hello'',
      tr_timestamp = ''T1'', tr_confidence = None, tr_created_at = ''T1''\<rparr>"

definition network_error :: SerializedError where
  "network_error =
     \<lparr>err_name = Some ''AxiosError'', err_message = Some ''Network Error'',
      err_stack = None, err_code = Some ''ERR_NETWORK''\<rparr>"

text \<open>A backend that answers every request, and one that is unreachable.\<close>

definition svc_up :: callService where
  "svc_up =
     \<lparr>svc_initiateCall = (\<lambda>d. Inr \<lparr>resp_call_id = ''b'', resp_status = ''initiating'',
                                   resp_phone_number = req_phone_number d,
                                   resp_created_at = ''T0'', websocket_url = ''/ws/call/b''\<rparr>),
      svc_getCall = (\<lambda>i. Inr (call_b\<lparr>call_id := i\<rparr>)),
      svc_endCall = (\<lambda>i. Inr ()),
      svc_getTranscripts = (\<lambda>i. Inr \<lparr>tl_call_id = i, tl_transcripts = []\<rparr>)\<rparr>"

definition svc_down :: callService where
  "svc_down =
     \<lparr>svc_initiateCall = (\<lambda>d. Inl network_error),
      svc_getCall = (\<lambda>i. Inl network_error),
      svc_endCall = (\<lambda>i. Inl network_error),
      svc_getTranscripts = (\<lambda>i. Inl network_error)\<rparr>"

text \<open>A backend that starts the call and then fails the detail fetch.\<close>

definition svc_half :: callService where
  "svc_half = svc_up\<lparr>svc_getCall := (\<lambda>i. Inl network_error)\<rparr>"

definition request1 :: CallInitiateRequest where
  "request1 = \<lparr>req_phone_number = ''+821098765432'', req_caller_id = None, req_ai_persona = None\<rparr>"



section \<open>Properties of the store\<close>

lemma transcripts_foldl_addTranscript:
  "transcripts (foldl addTranscript state es) = transcripts state @ es"
  by (induction es arbitrary: state) (simp_all add: addTranscript_def)

text \<open>
  C5. After a snapshot \<open>(call, ts)\<close> has been applied, any finite sequence \<open>es\<close> of
  appended entries leaves the log equal to \<open>ts\<close> followed by \<open>es\<close> in the order of the
  appends. Nothing is dropped: the log grows by exactly \<open>length es\<close>, whatever ids the
  entries carry.
\<close>

theorem snapshot_then_appends:
  "transcripts (foldl addTranscript (fetchCallDetails_fulfilled state (call, ts)) es) = ts @ es
   \<and> length (transcripts (foldl addTranscript (fetchCallDetails_fulfilled state (call, ts)) es))
       = length ts + length es"
  by (simp add: transcripts_foldl_addTranscript fetchCallDetails_fulfilled_def)

text \<open>
  C6. Applying the same snapshot twice in succession gives the state that applying it once
  gives.
\<close>

theorem applySnapshot_idempotent:
  "fetchCallDetails_fulfilled (fetchCallDetails_fulfilled state (call, ts)) (call, ts)
     = fetchCallDetails_fulfilled state (call, ts)"
  by (simp add: fetchCallDetails_fulfilled_def)

text \<open>
  C4. A status event whose call id is not the active call's id (or that arrives when no
  call is active) leaves the whole state as it is, for every status. When the ids agree,
  the state differs only in the \<open>status\<close> field of the active call; the transcript log is
  the same.
\<close>

theorem updateCallStatus_guard:
  "((\<forall>c. activeCall s = Some c \<longrightarrow> call_id c \<noteq> callId) \<longrightarrow> updateCallStatus s callId st = s)
   \<and> (\<forall>c. activeCall s = Some c \<and> call_id c = callId \<longrightarrow>
          updateCallStatus s callId st = s\<lparr>activeCall := Some (c\<lparr>status := st\<rparr>)\<rparr>
          \<and> transcripts (updateCallStatus s callId st) = transcripts s)"
  by (auto simp: updateCallStatus_def split: option.splits)

theorem updateCallStatus_guard_witness:
  "updateCallStatus state_a ''b'' ''ringing'' = state_a
   \<and> updateCallStatus initialState ''a'' ''ringing'' = initialState
   \<and> updateCallStatus state_a ''a'' ''ringing''
       = state_a\<lparr>activeCall := Some (call_a\<lparr>status := ''ringing''\<rparr>)\<rparr>
   \<and> transcripts (updateCallStatus state_a ''a'' ''ringing'') = transcripts state_a"
  using updateCallStatus_guard [of state_a "''b''" "''ringing''"]
        updateCallStatus_guard [of initialState "''a''" "''ringing''"]
        updateCallStatus_guard [of state_a "''a''" "''ringing''"]
  by (simp add: state_a_def call_a_def initialState_def)

text \<open>
  A response that resolves after the active call has changed is applied all the same. A
  detail fetch is pending, call \<open>a\<close> becomes the active call, and the fetch then resolves
  with call \<open>b\<close>: the store now tracks \<open>b\<close> with the fetched log.
\<close>

theorem stale_snapshot_applied:
  "activeCall (foldl callReducer initialState [FetchCallDetailsPending, SetActiveCall call_a])
     = Some call_a
   \<and> call_id call_b \<noteq> call_id call_a
   \<and> activeCall (foldl callReducer initialState
        [FetchCallDetailsPending, SetActiveCall call_a, FetchCallDetailsFulfilled (call_b, [entry1])])
     = Some call_b
   \<and> fetchCallDetails_fulfilled state_a (call_b, [entry1]) \<noteq> state_a"
  by (simp add: initialState_def fetchCallDetails_pending_def setActiveCall_def
        fetchCallDetails_fulfilled_def call_a_def call_b_def state_a_def)

text \<open>
  C2 (as the code has it). A resolved snapshot is never dropped. The fulfilled reducer of the
  detail fetch sets the active call to the returned call, the log to the returned list and
  \<open>loading\<close> to false, whatever call is tracked at that moment, and changes no other
  field; the fulfilled reducer of the initiation does the same with an empty log.
\<close>

theorem snapshot_applied_unconditionally:
  "activeCall (fetchCallDetails_fulfilled s (call, ts)) = Some call
   \<and> transcripts (fetchCallDetails_fulfilled s (call, ts)) = ts
   \<and> loading (fetchCallDetails_fulfilled s (call, ts)) = False
   \<and> fetchCallDetails_fulfilled s (call, ts)
       = s\<lparr>activeCall := Some call, transcripts := ts, loading := False\<rparr>
   \<and> initiateCall_fulfilled s (call, url)
       = s\<lparr>activeCall := Some call, transcripts := [], loading := False\<rparr>"
  by (simp add: fetchCallDetails_fulfilled_def initiateCall_fulfilled_def)

subsection \<open>The status and the transition graph\<close>













section \<open>Properties of the hook's actions\<close>

text \<open>
  C10. When the backend accepts the end-of-call request, \<^verbatim>\<open>stopCall(callId)\<close> sets the
  status of whatever call is active to \<open>completed\<close>: the result does not depend on whether
  the active call's id is \<open>callId\<close>. With no active call the state is unchanged.
\<close>

theorem stopCall_ignores_callId:
  "svc_endCall svc callId = Inr () \<Longrightarrow>
     (activeCall s = None \<longrightarrow> stopCall svc s callId = s)
     \<and> (\<forall>c. activeCall s = Some c \<longrightarrow>
            stopCall svc s callId = s\<lparr>activeCall := Some (c\<lparr>status := ''completed''\<rparr>)\<rparr>)"
  by (simp add: stopCall_def endCall_def endCall_fulfilled_def)

theorem stopCall_ignores_callId_witness:
  "svc_endCall svc_up ''b'' = Inr ()
   \<and> call_id call_a \<noteq> ''b''
   \<and> stopCall svc_up state_a ''b'' = state_a\<lparr>activeCall := Some (call_a\<lparr>status := ''completed''\<rparr>)\<rparr>
   \<and> stopCall svc_up initialState ''b'' = initialState"
proof -
  have ok: "svc_endCall svc_up ''b'' = Inr ()" by (simp add: svc_up_def)
  show ?thesis
    using ok stopCall_ignores_callId [OF ok, of state_a] stopCall_ignores_callId [OF ok, of initialState]
    by (simp add: state_a_def call_a_def initialState_def)
qed

text \<open>
  C7. \<^verbatim>\<open>startCall\<close> asks the backend to initiate the call and then fetches the call
  with the id of the response. When both succeed, the fetched call becomes the active call,
  the log is emptied, and the call is returned with the socket URL. When the initiation
  fails, or it succeeds and the fetch fails, the thunk is rejected: nothing is returned, the
  message of the failure is in \<open>error\<close>, and the state differs from the one before in
  \<open>loading\<close> and \<open>error\<close> only; the active call and the log are the ones before.
\<close>

theorem startCall_outcome:
  "(\<forall>r c. svc_initiateCall svc d = Inr r \<and> svc_getCall svc (resp_call_id r) = Inr c \<longrightarrow>
       startCall svc s d
         = (s\<lparr>loading := False, error := None, activeCall := Some c, transcripts := []\<rparr>,
            Some (c, websocket_url r)))
   \<and> (\<forall>e. (svc_initiateCall svc d = Inl e
            \<or> (\<exists>r. svc_initiateCall svc d = Inr r \<and> svc_getCall svc (resp_call_id r) = Inl e)) \<longrightarrow>
          snd (startCall svc s d) = None
          \<and> activeCall (fst (startCall svc s d)) = activeCall s
          \<and> transcripts (fst (startCall svc s d)) = transcripts s
          \<and> fst (startCall svc s d)
              = s\<lparr>loading := False, error := Some (message_or e ''Failed to initiate call'')\<rparr>)"
  by (auto simp: startCall_def initiateCall_def Let_def initiateCall_pending_def
        initiateCall_fulfilled_def initiateCall_rejected_def)

theorem startCall_outcome_witness:
  "startCall svc_up (addTranscript state_a entry1) request1
     = (initialState\<lparr>activeCall := Some call_b\<rparr>, Some (call_b, ''/ws/call/b''))
   \<and> startCall svc_down (addTranscript state_a entry1) request1
     = ((addTranscript state_a entry1)\<lparr>error := Some ''Network Error''\<rparr>, None)
   \<and> startCall svc_half (addTranscript state_a entry1) request1
     = ((addTranscript state_a entry1)\<lparr>error := Some ''Network Error''\<rparr>, None)
   \<and> activeCall (addTranscript state_a entry1) = Some call_a
   \<and> transcripts (addTranscript state_a entry1) = [entry1]"
  using startCall_outcome [of svc_up request1 "addTranscript state_a entry1"]
        startCall_outcome [of svc_down request1 "addTranscript state_a entry1"]
        startCall_outcome [of svc_half request1 "addTranscript state_a entry1"]
  by (simp add: svc_up_def svc_down_def svc_half_def request1_def state_a_def initialState_def
        addTranscript_def call_b_def call_a_def message_or_def network_error_def prod_eq_iff)

text \<open>
  C8. When the backend rejects the end-of-call request, \<^verbatim>\<open>stopCall\<close> leaves the whole
  state as it is: the call keeps its status, and \<open>error\<close> keeps its value too, because the
  slice registers no case for \<^verbatim>\<open>endCall.rejected\<close>. With the unreachable backend the
  error stays \<open>None\<close>, where the detail fetch in the same situation stores the message.
\<close>

theorem stopCall_failure_not_surfaced:
  "stopCall (svc\<lparr>svc_endCall := (\<lambda>i. Inl e)\<rparr>) s callId = s
   \<and> svc_endCall svc_down ''a'' = Inl network_error
   \<and> error (stopCall svc_down state_a ''a'') = None
   \<and> error (loadCallDetails svc_down state_a ''a'') = Some ''Network Error''"
  by (simp add: stopCall_def endCall_def svc_down_def state_a_def initialState_def
        loadCallDetails_def fetchCallDetails_def fetchCallDetails_pending_def
        fetchCallDetails_rejected_def message_or_def network_error_def)

section \<open>Properties of the WebSocket hook\<close>

text \<open>
  C1. A connection is opened and then closed by the caller. The close event of the socket is
  delivered after the call of \<^verbatim>\<open>disconnect\<close>, its handler starts the reconnection timer,
  and the timer opens a second socket: two connections have been opened, one of them after
  the close. When the close event comes before the call of \<^verbatim>\<open>disconnect\<close>, the timer is
  cancelled and no second socket is opened.
\<close>

theorem reconnect_after_close:
  "opens (chan_run (Some ''a'') [Mount, SocketOpened 0, Close]) = 1
   \<and> wsRef (chan_run (Some ''a'') [Mount, SocketOpened 0, Close]) = None
   \<and> opens (chan_run (Some ''a'') [Mount, SocketOpened 0, Close, SocketClosed 0, TimerFired 0]) = 2
   \<and> sockets (chan_run (Some ''a'') [Mount, SocketOpened 0, Close, SocketClosed 0, TimerFired 0])
       = [CLOSED, CONNECTING]
   \<and> opens (chan_run (Some ''a'') [Mount, SocketOpened 0, SocketClosed 0, Close, TimerFired 0]) = 1"
  by (simp add: chan_run_def channel0_def connect_def disconnect_def ws_close_def clearTimeout_def
        onopen_def onclose_def opens_def)

section \<open>Properties of the inbound message handler\<close>

text \<open>
  A message of a recognised type is not checked any further. The message
  \<^verbatim>\<open>{type: 'transcript'}\<close> yields a transcript whose speaker, text and timestamp are
  undefined, and a status update yields whatever its \<^verbatim>\<open>status\<close> member is (here a
  number, or undefined when the member is missing): malformed, and not null.
\<close>

theorem malformed_message_yields_event:
  "normalize_raw (\<lambda>d. Some (JObject [(''type'', JString ''transcript'')])) ''a'' ''u1'' ''m1''
     = Inr (Some (HandleNewTranscript
         \<lparr>w_id = ''u1'', w_call_id = ''a'', w_speaker = None, w_text = None,
          w_timestamp = None, w_created_at = None\<rparr>))
   \<and> normalize_raw (\<lambda>d. Some (JObject [(''type'', JString ''transcript'')])) ''a'' ''u1'' ''m1''
       \<noteq> Inr None
   \<and> normalize_raw (\<lambda>d. Some (JObject [(''type'', JString ''status_update''),
                                         (''status'', JNumber 5)])) ''a'' ''u1'' ''m2''
       = Inr (Some (HandleStatusUpdate ''a'' (Some (JNumber 5))))
   \<and> normalize_raw (\<lambda>d. Some (JObject [(''type'', JString ''status_update'')])) ''a'' ''u1'' ''m3''
       = Inr (Some (HandleStatusUpdate ''a'' None))"
  by (simp add: normalize_raw_def ws_onmessage_def onMessage_def js_member_def)

text \<open>
  C9 (as the code has it). For every parser, call id and raw input, handling a message ends
  without an error leaving the handler. An event is produced exactly when the input parses
  to an object whose \<open>type\<close> member is the string \<open>transcript\<close> or \<open>status_update\<close>; in
  every other case (no parse, null, a boolean, number, string or array, an object with no
  or another \<open>type\<close>) the result is \<open>None\<close>. The event of a recognised message carries
  the other members as they are in the message, undefined when missing: they are not
  validated.
\<close>

theorem normalize_never_throws:
  "(\<exists>r. normalize_raw parse callId uuid raw = Inr r)
   \<and> ((\<exists>ev. normalize_raw parse callId uuid raw = Inr (Some ev))
        = (\<exists>ms. parse raw = Some (JObject ms)
              \<and> (map_of ms ''type'' = Some (JString ''transcript'')
                 \<or> map_of ms ''type'' = Some (JString ''status_update''))))
   \<and> normalize_raw parse callId uuid raw
       = Inr (case parse raw of
                Some (JObject ms) \<Rightarrow>
                  (if map_of ms ''type'' = Some (JString ''transcript'')
                   then Some (HandleNewTranscript
                          \<lparr>w_id = uuid, w_call_id = callId,
                           w_speaker = map_of ms ''speaker'', w_text = map_of ms ''text'',
                           w_timestamp = map_of ms ''timestamp'',
                           w_created_at = map_of ms ''timestamp''\<rparr>)
                   else if map_of ms ''type'' = Some (JString ''status_update'')
                   then Some (HandleStatusUpdate callId (map_of ms ''status''))
                   else None)
              | _ \<Rightarrow> None)"
proof (cases "parse raw")
  case None
  then show ?thesis
    by (simp add: normalize_raw_def ws_onmessage_def)
next
  case (Some message)
  then show ?thesis
    by (cases message)
       (auto simp: normalize_raw_def ws_onmessage_def onMessage_def js_member_def
          split: sum.splits)
qed

lemma normalize_examples:
  "normalize_raw (\<lambda>d. None) callId uuid ''not json'' = Inr None
   \<and> normalize_raw (\<lambda>d. Some JNull) callId uuid ''null'' = Inr None
   \<and> normalize_raw (\<lambda>d. Some (JArray [JString ''transcript''])) callId uuid raw = Inr None
   \<and> normalize_raw (\<lambda>d. Some (JObject [(''status'', JString ''ringing'')])) callId uuid raw = Inr None
   \<and> normalize_raw (\<lambda>d. Some (JObject [(''type'', JString ''ping'')])) callId uuid raw = Inr None
   \<and> normalize_raw (\<lambda>d. Some (JObject [(''type'', JString ''status_update''),
                                         (''status'', JString ''ringing'')])) callId uuid raw
       = Inr (Some (HandleStatusUpdate callId (Some (JString ''ringing''))))"
  by (simp add: normalize_raw_def ws_onmessage_def onMessage_def js_member_def)

end
